theory Spec2Isabelle
  imports Main
begin

section \<open>The layer graph\<close>

text \<open>
  The builders of \<^verbatim>\<open>resnet_1d_common.py\<close> and \<^verbatim>\<open>vgg19_1d.py\<close> create Keras layers
  and apply each one to a tensor: \<^verbatim>\<open>layers.Conv1D(..., name=n)(x)\<close>. The graph is the list
  of the nodes created so far, in creation order; a tensor handle is the index of the node
  that produced it. Every keyword argument the source passes is recorded; an argument the
  source leaves to the library's default is \<open>None\<close>. The constant
  \<^verbatim>\<open>epsilon=1.001e-5\<close> of every \<^verbatim>\<open>BatchNormalization\<close> call is the same everywhere and is
  not recorded. The shape inference of the layer library is not part of the sources and is
  not modelled: a node is recorded for every layer call the source makes.
\<close>

type_synonym tensor = nat

type_synonym shape = "int option list"

text \<open>The \<^verbatim>\<open>input_tensor\<close> argument: a tensor of the graph, or a tensor of the backend
  that is not a Keras tensor.\<close>

datatype tensor_arg = KerasTensor tensor | BackendTensor string

text \<open>\<^verbatim>\<open>backend.is_keras_tensor\<close>.\<close>

fun is_keras_tensor :: "tensor_arg \<Rightarrow> bool" where
  "is_keras_tensor (KerasTensor t) = True"
| "is_keras_tensor (BackendTensor b) = False"

datatype layer =
    Input "tensor_arg option" shape
      \<comment> \<open>\<^verbatim>\<open>tensor\<close>, \<^verbatim>\<open>shape\<close>\<close>
  | Conv1D int int "int option" "string option" "bool option" "string option" "string option"
      \<comment> \<open>\<^verbatim>\<open>filters\<close>, \<^verbatim>\<open>kernel_size\<close>, \<^verbatim>\<open>strides\<close>, \<^verbatim>\<open>padding\<close>, \<^verbatim>\<open>use_bias\<close>,
          \<^verbatim>\<open>activation\<close>, \<^verbatim>\<open>kernel_initializer\<close>\<close>
  | BatchNormalization int
      \<comment> \<open>\<^verbatim>\<open>axis\<close>\<close>
  | Activation string
  | ZeroPadding1D int
      \<comment> \<open>\<^verbatim>\<open>padding\<close>\<close>
  | MaxPooling1D int int
      \<comment> \<open>\<^verbatim>\<open>pool_size\<close>, \<^verbatim>\<open>strides\<close>\<close>
  | Add
  | GlobalAveragePooling1D
  | GlobalMaxPooling1D
  | Dense int string
      \<comment> \<open>\<^verbatim>\<open>units\<close>, \<^verbatim>\<open>activation\<close>\<close>
  | Flatten

record node =
  layer :: layer
  lname :: "string option"
  inputs :: "tensor list"

type_synonym graph = "node list"

text \<open>\<^verbatim>\<open>layers.L(..., name=n)(xs)\<close>: a new node, whose output is a new tensor.\<close>

definition apply_layer ::
  "layer \<Rightarrow> string option \<Rightarrow> tensor list \<Rightarrow> graph \<Rightarrow>
   tensor \<times> graph" where
  "apply_layer l n xs g = (length g, g @ [\<lparr>layer = l, lname = n, inputs = xs\<rparr>])"

text \<open>The submodules \<^verbatim>\<open>get_submodules_from_kwargs\<close> returns, as far as the builders read
  them. Their code is not part of the sources, so what they compute is a parameter:
  \<open>load_weights\<close> returns the message of the exception it raises, or \<open>None\<close>.\<close>

datatype error =
    WeightsValueError string
      \<comment> \<open>the \<^verbatim>\<open>ValueError\<close> the entry points raise for the \<^verbatim>\<open>weights\<close> argument\<close>
  | Raised string
      \<comment> \<open>an exception of a collaborator, with its message\<close>

record keras =
  image_data_format :: string
  get_source_inputs :: "graph \<Rightarrow> tensor_arg \<Rightarrow> tensor list"
  load_weights :: "graph \<Rightarrow> string \<Rightarrow> string option"

section \<open>Python's \<^verbatim>\<open>str\<close> on integers\<close>

definition digit :: "nat \<Rightarrow> char" where
  "digit d = ''0123456789'' ! d"

fun str_nat :: "nat \<Rightarrow> string" where
  "str_nat n = (if n < 10 then [digit n] else str_nat (n div 10) @ [digit (n mod 10)])"

definition str :: "int \<Rightarrow> string" where
  "str i = (if i < 0 then CHR ''-'' # str_nat (nat (- i)) else str_nat (nat i))"

section \<open>Residual blocks\<close>

text \<open>The arguments of a block call, but the input tensor.\<close>

record block_args =
  filters :: int
  kernel_size :: int
  stride :: int
  conv_shortcut :: bool
  kernel_initializer :: string
  name :: string

definition block0 ::
  "keras \<Rightarrow> tensor \<Rightarrow> block_args \<Rightarrow> graph \<Rightarrow>
   tensor \<times> graph" where
  "block0 K x a g =
    (let bn_axis = (if image_data_format K = ''channels_last'' then 2 else 1);
         (shortcut, g) =
           (if conv_shortcut a then
              (let (shortcut, g) =
                     apply_layer (Conv1D (filters a) 1 (Some (stride a)) (Some ''SAME'') None None
                                    (Some (kernel_initializer a)))
                       (Some (name a @ ''_0_conv'')) [x] g
               in apply_layer (BatchNormalization bn_axis) (Some (name a @ ''_0_bn'')) [shortcut] g)
            else (x, g));
         (x, g) = apply_layer (Conv1D (filters a) (kernel_size a) (Some (stride a)) (Some ''SAME'')
                                 None None (Some (kernel_initializer a)))
                    (Some (name a @ ''_1_conv'')) [x] g;
         (x, g) = apply_layer (BatchNormalization bn_axis) (Some (name a @ ''_1_bn'')) [x] g;
         (x, g) = apply_layer (Activation ''relu'') (Some (name a @ ''_1_relu'')) [x] g;
         (x, g) = apply_layer (Conv1D (filters a) (kernel_size a) None (Some ''SAME'') None None
                                 (Some (kernel_initializer a)))
                    (Some (name a @ ''_2_conv'')) [x] g;
         (x, g) = apply_layer (BatchNormalization bn_axis) (Some (name a @ ''_2_bn'')) [x] g;
         (x, g) = apply_layer Add (Some (name a @ ''_add'')) [shortcut, x] g
     in apply_layer (Activation ''relu'') (Some (name a @ ''_out'')) [x] g)"

definition block1 ::
  "keras \<Rightarrow> tensor \<Rightarrow> block_args \<Rightarrow> graph \<Rightarrow>
   tensor \<times> graph" where
  "block1 K x a g =
    (let bn_axis = (if image_data_format K = ''channels_last'' then 2 else 1);
         (shortcut, g) =
           (if conv_shortcut a then
              (let (shortcut, g) =
                     apply_layer (Conv1D (4 * filters a) 1 (Some (stride a)) None None None
                                    (Some (kernel_initializer a)))
                       (Some (name a @ ''_0_conv'')) [x] g
               in apply_layer (BatchNormalization bn_axis) (Some (name a @ ''_0_bn'')) [shortcut] g)
            else (x, g));
         (x, g) = apply_layer (Conv1D (filters a) 1 (Some (stride a)) None None None
                                 (Some (kernel_initializer a)))
                    (Some (name a @ ''_1_conv'')) [x] g;
         (x, g) = apply_layer (BatchNormalization bn_axis) (Some (name a @ ''_1_bn'')) [x] g;
         (x, g) = apply_layer (Activation ''relu'') (Some (name a @ ''_1_relu'')) [x] g;
         (x, g) = apply_layer (Conv1D (filters a) (kernel_size a) None (Some ''SAME'') None None
                                 (Some (kernel_initializer a)))
                    (Some (name a @ ''_2_conv'')) [x] g;
         (x, g) = apply_layer (BatchNormalization bn_axis) (Some (name a @ ''_2_bn'')) [x] g;
         (x, g) = apply_layer (Activation ''relu'') (Some (name a @ ''_2_relu'')) [x] g;
         (x, g) = apply_layer (Conv1D (4 * filters a) 1 None None None None
                                 (Some (kernel_initializer a)))
                    (Some (name a @ ''_3_conv'')) [x] g;
         (x, g) = apply_layer (BatchNormalization bn_axis) (Some (name a @ ''_3_bn'')) [x] g;
         (x, g) = apply_layer Add (Some (name a @ ''_add'')) [shortcut, x] g
     in apply_layer (Activation ''relu'') (Some (name a @ ''_out'')) [x] g)"

definition block2 ::
  "keras \<Rightarrow> tensor \<Rightarrow> block_args \<Rightarrow> graph \<Rightarrow>
   tensor \<times> graph" where
  "block2 K x a g =
    (let bn_axis = (if image_data_format K = ''channels_last'' then 2 else 1);
         (preact, g) = apply_layer (BatchNormalization bn_axis) (Some (name a @ ''_preact_bn'')) [x] g;
         (preact, g) = apply_layer (Activation ''relu'') (Some (name a @ ''_preact_relu'')) [preact] g;
         (shortcut, g) =
           (if conv_shortcut a then
              apply_layer (Conv1D (4 * filters a) 1 (Some (stride a)) None None None
                             (Some (kernel_initializer a)))
                (Some (name a @ ''_0_conv'')) [preact] g
            else if stride a > 1 then apply_layer (MaxPooling1D 1 (stride a)) None [x] g
            else (x, g));
         (x, g) = apply_layer (Conv1D (filters a) 1 (Some 1) None (Some False) None
                                 (Some (kernel_initializer a)))
                    (Some (name a @ ''_1_conv'')) [preact] g;
         (x, g) = apply_layer (BatchNormalization bn_axis) (Some (name a @ ''_1_bn'')) [x] g;
         (x, g) = apply_layer (Activation ''relu'') (Some (name a @ ''_1_relu'')) [x] g;
         (x, g) = apply_layer (ZeroPadding1D 0) (Some (name a @ ''_2_pad'')) [x] g;
         (x, g) = apply_layer (Conv1D (filters a) (kernel_size a) (Some (stride a)) None (Some False)
                                 None (Some (kernel_initializer a)))
                    (Some (name a @ ''_2_conv'')) [x] g;
         (x, g) = apply_layer (BatchNormalization bn_axis) (Some (name a @ ''_2_bn'')) [x] g;
         (x, g) = apply_layer (Activation ''relu'') (Some (name a @ ''_2_relu'')) [x] g;
         (x, g) = apply_layer (Conv1D (4 * filters a) 1 None None None None
                                 (Some (kernel_initializer a)))
                    (Some (name a @ ''_3_conv'')) [x] g
     in apply_layer Add (Some (name a @ ''_out'')) [shortcut, x] g)"

section \<open>Stacks\<close>

text \<open>
  In the stack functions \<open>fl\<close> is the source's \<^verbatim>\<open>filters\<close>, \<open>ki\<close> its
  \<^verbatim>\<open>kernel_initializer\<close> and \<open>nm\<close> its \<^verbatim>\<open>name\<close>; \<^verbatim>\<open>range(2, n)\<close> is the list
  \<open>[2..n - 1]\<close>. A block argument the call leaves out has the default of the block's
  signature: \<^verbatim>\<open>kernel_size=3\<close>, \<^verbatim>\<open>stride=1\<close>, \<^verbatim>\<open>kernel_initializer='he_uniform'\<close>, and
  \<^verbatim>\<open>conv_shortcut=True\<close> for \<^verbatim>\<open>block0\<close> and \<^verbatim>\<open>block1\<close>, \<^verbatim>\<open>conv_shortcut=False\<close> for
  \<^verbatim>\<open>block2\<close>.
\<close>

definition stack0 ::
  "keras \<Rightarrow> tensor \<Rightarrow> int \<Rightarrow> int \<Rightarrow> int \<Rightarrow>
   string \<Rightarrow> string \<Rightarrow> graph \<Rightarrow> tensor \<times> graph" where
  "stack0 K x fl blocks stride1 ki nm g =
    (let (x, g) = block0 K x \<lparr>filters = fl, kernel_size = 3, stride = stride1, conv_shortcut = True,
                               kernel_initializer = ki, name = nm @ ''_block1''\<rparr> g
     in fold (\<lambda>i (x, g).
                block0 K x \<lparr>filters = fl, kernel_size = 3, stride = 1, conv_shortcut = False,
                             kernel_initializer = ki, name = nm @ ''_block'' @ str i\<rparr> g)
          [2..blocks + 1 - 1] (x, g))"

definition stack1 ::
  "keras \<Rightarrow> tensor \<Rightarrow> int \<Rightarrow> int \<Rightarrow> int \<Rightarrow>
   string \<Rightarrow> string \<Rightarrow> graph \<Rightarrow> tensor \<times> graph" where
  "stack1 K x fl blocks stride1 ki nm g =
    (let (x, g) = block1 K x \<lparr>filters = fl, kernel_size = 3, stride = stride1, conv_shortcut = True,
                               kernel_initializer = ki, name = nm @ ''_block1''\<rparr> g
     in fold (\<lambda>i (x, g).
                block1 K x \<lparr>filters = fl, kernel_size = 3, stride = 1, conv_shortcut = False,
                             kernel_initializer = ki, name = nm @ ''_block'' @ str i\<rparr> g)
          [2..blocks + 1 - 1] (x, g))"

definition stack2 ::
  "keras \<Rightarrow> tensor \<Rightarrow> int \<Rightarrow> int \<Rightarrow> int \<Rightarrow>
   string \<Rightarrow> string \<Rightarrow> graph \<Rightarrow> tensor \<times> graph" where
  "stack2 K x fl blocks stride1 ki nm g =
    (let (x, g) = block2 K x \<lparr>filters = fl, kernel_size = 3, stride = 1, conv_shortcut = True,
                               kernel_initializer = ki, name = nm @ ''_block1''\<rparr> g;
         (x, g) = fold (\<lambda>i (x, g).
                      block2 K x \<lparr>filters = fl, kernel_size = 3, stride = 1, conv_shortcut = False,
                                   kernel_initializer = ''he_uniform'',
                                   name = nm @ ''_block'' @ str i\<rparr> g)
                    [2..blocks - 1] (x, g)
     in block2 K x \<lparr>filters = fl, kernel_size = 3, stride = stride1, conv_shortcut = False,
                     kernel_initializer = ki, name = nm @ ''_block'' @ str blocks\<rparr> g)"

subsection \<open>The block calls of a stack\<close>






section \<open>The network builders\<close>

text \<open>
  The arguments of an entry point, and what it reads from outside the sources:
  the value of \<^verbatim>\<open>get_submodules_from_kwargs(kwargs)\<close> (the submodules, or the exception it
  raises), \<^verbatim>\<open>os.path.exists\<close>, and \<^verbatim>\<open>_obtain_input_shape_1d\<close>, which returns the shape
  or raises; an exception of theirs is its message. An entry point returns the model or
  the exception it raised, and the graph as it stands then. \<open>ki\<close> is the
  \<^verbatim>\<open>kernel_initializer\<close> argument of \<open>ResNet\<close> and of its presets.
\<close>

record build_args =
  include_top :: bool
  weights :: "string option"
  input_tensor :: "tensor_arg option"
  input_shape :: "shape option"
  pooling :: "string option"
  classes :: int

record env =
  submodules :: "string + keras"
  path_exists :: "string \<Rightarrow> bool"
  obtain_input_shape_1d :: "shape option \<Rightarrow> int \<Rightarrow> string \<Rightarrow> string + shape"

record model =
  m_inputs :: "tensor list"
  m_output :: tensor
  m_name :: string
  m_weights :: "string option"

definition ResNet ::
  "env \<Rightarrow> (keras \<Rightarrow> tensor \<Rightarrow> graph \<Rightarrow> tensor \<times> graph) \<Rightarrow> bool \<Rightarrow> bool \<Rightarrow> string \<Rightarrow> build_args \<Rightarrow>
   string \<Rightarrow> graph \<Rightarrow> (error + model) \<times> graph" where
  "ResNet E stack_fn preact use_bias model_name a ki g =
    (case submodules E of
       Inl e \<Rightarrow> (Inl (Raised e), g)
     | Inr K \<Rightarrow>
        if \<not> (case weights a of None \<Rightarrow> True | Some w \<Rightarrow> path_exists E w) then
          (Inl (WeightsValueError
             (''The `weights` argument should be either '' @
              ''`None` (random initialization), '' @
              ''or the path to the weights file to be loaded.'')), g)
        else
          (case obtain_input_shape_1d E (input_shape a) 32 (image_data_format K) of
             Inl e \<Rightarrow> (Inl (Raised e), g)
           | Inr shp \<Rightarrow>
              (let (img_input, g) =
                     (case input_tensor a of
                        None \<Rightarrow> apply_layer (Input None shp) None [] g
                      | Some t \<Rightarrow>
                          if \<not> is_keras_tensor t then apply_layer (Input (Some t) shp) None [] g
                          else (case t of KerasTensor i \<Rightarrow> (i, g)
                                | BackendTensor b \<Rightarrow> apply_layer (Input (Some t) shp) None [] g));
                   bn_axis = (if image_data_format K = ''channels_last'' then 2 else 1);
                   (x, g) = apply_layer (ZeroPadding1D 3) (Some ''conv1_pad'') [img_input] g;
                   (x, g) = apply_layer (Conv1D 64 7 (Some 2) None (Some use_bias) None (Some ki))
                              (Some ''conv1_conv'') [x] g;
                   (x, g) =
                     (if \<not> preact then
                        (let (x, g) = apply_layer (BatchNormalization bn_axis) (Some ''conv1_bn'') [x] g
                         in apply_layer (Activation ''relu'') (Some ''conv1_relu'') [x] g)
                      else (x, g));
                   (x, g) = apply_layer (ZeroPadding1D 1) (Some ''pool1_pad'') [x] g;
                   (x, g) = apply_layer (MaxPooling1D 3 2) (Some ''pool1_pool'') [x] g;
                   (x, g) = stack_fn K x g;
                   (x, g) =
                     (if preact then
                        (let (x, g) = apply_layer (BatchNormalization bn_axis) (Some ''post_bn'') [x] g
                         in apply_layer (Activation ''relu'') (Some ''post_relu'') [x] g)
                      else (x, g));
                   (x, g) =
                     (if include_top a then
                        (let (x, g) = apply_layer GlobalAveragePooling1D (Some ''avg_pool'') [x] g
                         in apply_layer (Dense (classes a) ''softmax'') (Some ''probs'') [x] g)
                      else if pooling a = Some ''avg'' then
                        apply_layer GlobalAveragePooling1D (Some ''avg_pool'') [x] g
                      else if pooling a = Some ''max'' then
                        apply_layer GlobalMaxPooling1D (Some ''max_pool'') [x] g
                      else (x, g));
                   inputs = (case input_tensor a of
                               Some t \<Rightarrow> get_source_inputs K g t
                             | None \<Rightarrow> [img_input]);
                   model = \<lparr>m_inputs = inputs, m_output = x, m_name = model_name, m_weights = None\<rparr>
               in case weights a of
                    None \<Rightarrow> (Inr model, g)
                  | Some w \<Rightarrow>
                      (case load_weights K g w of
                         Some e \<Rightarrow> (Inl (Raised e), g)
                       | None \<Rightarrow> (Inr (model\<lparr>m_weights := Some w\<rparr>), g)))))"

subsection \<open>The presets\<close>

text \<open>Each preset passes its \<^verbatim>\<open>stack_fn\<close> to \<open>ResNet\<close>; a stack call that leaves
  \<^verbatim>\<open>stride1\<close> out has the default \<^verbatim>\<open>stride1=2\<close>.\<close>

definition ResNet18_stack_fn ::
  "string \<Rightarrow> keras \<Rightarrow> tensor \<Rightarrow> graph \<Rightarrow>
   tensor \<times> graph" where
  "ResNet18_stack_fn ki K x g =
    (let (x, g) = stack0 K x 64 2 1 ki ''conv2'' g;
         (x, g) = stack0 K x 128 2 2 ki ''conv3'' g;
         (x, g) = stack0 K x 256 2 2 ki ''conv4'' g
     in stack0 K x 512 2 2 ki ''conv5'' g)"


definition ResNet34_stack_fn ::
  "string \<Rightarrow> keras \<Rightarrow> tensor \<Rightarrow> graph \<Rightarrow>
   tensor \<times> graph" where
  "ResNet34_stack_fn ki K x g =
    (let (x, g) = stack0 K x 64 3 1 ki ''conv2'' g;
         (x, g) = stack0 K x 128 4 2 ki ''conv3'' g;
         (x, g) = stack0 K x 256 6 2 ki ''conv4'' g
     in stack0 K x 512 3 2 ki ''conv5'' g)"


definition ResNet50_stack_fn ::
  "string \<Rightarrow> keras \<Rightarrow> tensor \<Rightarrow> graph \<Rightarrow>
   tensor \<times> graph" where
  "ResNet50_stack_fn ki K x g =
    (let (x, g) = stack1 K x 64 3 1 ki ''conv2'' g;
         (x, g) = stack1 K x 128 4 2 ki ''conv3'' g;
         (x, g) = stack1 K x 256 6 2 ki ''conv4'' g
     in stack1 K x 512 3 2 ki ''conv5'' g)"


definition ResNet101_stack_fn ::
  "string \<Rightarrow> keras \<Rightarrow> tensor \<Rightarrow> graph \<Rightarrow>
   tensor \<times> graph" where
  "ResNet101_stack_fn ki K x g =
    (let (x, g) = stack1 K x 64 3 1 ki ''conv2'' g;
         (x, g) = stack1 K x 128 4 2 ki ''conv3'' g;
         (x, g) = stack1 K x 256 23 2 ki ''conv4'' g
     in stack1 K x 512 3 2 ki ''conv5'' g)"


definition ResNet152_stack_fn ::
  "string \<Rightarrow> keras \<Rightarrow> tensor \<Rightarrow> graph \<Rightarrow>
   tensor \<times> graph" where
  "ResNet152_stack_fn ki K x g =
    (let (x, g) = stack1 K x 64 3 1 ki ''conv2'' g;
         (x, g) = stack1 K x 128 8 2 ki ''conv3'' g;
         (x, g) = stack1 K x 256 36 2 ki ''conv4'' g
     in stack1 K x 512 3 2 ki ''conv5'' g)"


definition ResNet50V2_stack_fn ::
  "string \<Rightarrow> keras \<Rightarrow> tensor \<Rightarrow> graph \<Rightarrow>
   tensor \<times> graph" where
  "ResNet50V2_stack_fn ki K x g =
    (let (x, g) = stack2 K x 64 3 2 ki ''conv2'' g;
         (x, g) = stack2 K x 128 4 2 ki ''conv3'' g;
         (x, g) = stack2 K x 256 6 2 ki ''conv4'' g
     in stack2 K x 512 3 1 ki ''conv5'' g)"


definition ResNet101V2_stack_fn ::
  "string \<Rightarrow> keras \<Rightarrow> tensor \<Rightarrow> graph \<Rightarrow>
   tensor \<times> graph" where
  "ResNet101V2_stack_fn ki K x g =
    (let (x, g) = stack2 K x 64 3 2 ki ''conv2'' g;
         (x, g) = stack2 K x 128 4 2 ki ''conv3'' g;
         (x, g) = stack2 K x 256 23 2 ki ''conv4'' g
     in stack2 K x 512 3 1 ki ''conv5'' g)"


definition ResNet152V2_stack_fn ::
  "string \<Rightarrow> keras \<Rightarrow> tensor \<Rightarrow> graph \<Rightarrow>
   tensor \<times> graph" where
  "ResNet152V2_stack_fn ki K x g =
    (let (x, g) = stack2 K x 64 3 2 ki ''conv2'' g;
         (x, g) = stack2 K x 128 8 2 ki ''conv3'' g;
         (x, g) = stack2 K x 256 36 2 ki ''conv4'' g
     in stack2 K x 512 3 1 ki ''conv5'' g)"


subsection \<open>VGG19\<close>

definition VGG19 ::
  "env \<Rightarrow> build_args \<Rightarrow> graph \<Rightarrow> (error + model) \<times> graph" where
  "VGG19 E a g =
    (case submodules E of
       Inl e \<Rightarrow> (Inl (Raised e), g)
     | Inr K \<Rightarrow>
        if \<not> (case weights a of None \<Rightarrow> True | Some w \<Rightarrow> path_exists E w) then
          (Inl (WeightsValueError
             (''The `weights` argument should be either '' @
              ''`None` (random initialization),'' @
              ''or the path to the weights file to be loaded.'')), g)
        else
          (case obtain_input_shape_1d E (input_shape a) 32 (image_data_format K) of
             Inl e \<Rightarrow> (Inl (Raised e), g)
           | Inr shp \<Rightarrow>
              (let (img_input, g) =
                     (case input_tensor a of
                        None \<Rightarrow> apply_layer (Input None shp) None [] g
                      | Some t \<Rightarrow>
                          if \<not> is_keras_tensor t then apply_layer (Input (Some t) shp) None [] g
                          else (case t of KerasTensor i \<Rightarrow> (i, g)
                                | BackendTensor b \<Rightarrow> apply_layer (Input (Some t) shp) None [] g));
                   (x, g) = apply_layer (Conv1D 64 3 None (Some ''same'') None (Some ''relu'') None)
                              (Some ''block1_conv1'') [img_input] g;
                   (x, g) = apply_layer (Conv1D 64 3 None (Some ''same'') None (Some ''relu'') None)
                              (Some ''block1_conv2'') [x] g;
                   (x, g) = apply_layer (MaxPooling1D 2 2) (Some ''block1_pool'') [x] g;
                   (x, g) = apply_layer (Conv1D 128 3 None (Some ''same'') None (Some ''relu'') None)
                              (Some ''block2_conv1'') [x] g;
                   (x, g) = apply_layer (Conv1D 128 3 None (Some ''same'') None (Some ''relu'') None)
                              (Some ''block2_conv2'') [x] g;
                   (x, g) = apply_layer (MaxPooling1D 2 2) (Some ''block2_pool'') [x] g;
                   (x, g) = apply_layer (Conv1D 256 3 None (Some ''same'') None (Some ''relu'') None)
                              (Some ''block3_conv1'') [x] g;
                   (x, g) = apply_layer (Conv1D 256 3 None (Some ''same'') None (Some ''relu'') None)
                              (Some ''block3_conv2'') [x] g;
                   (x, g) = apply_layer (Conv1D 256 3 None (Some ''same'') None (Some ''relu'') None)
                              (Some ''block3_conv3'') [x] g;
                   (x, g) = apply_layer (Conv1D 256 3 None (Some ''same'') None (Some ''relu'') None)
                              (Some ''block3_conv4'') [x] g;
                   (x, g) = apply_layer (MaxPooling1D 2 2) (Some ''block3_pool'') [x] g;
                   (x, g) = apply_layer (Conv1D 512 3 None (Some ''same'') None (Some ''relu'') None)
                              (Some ''block4_conv1'') [x] g;
                   (x, g) = apply_layer (Conv1D 512 3 None (Some ''same'') None (Some ''relu'') None)
                              (Some ''block4_conv2'') [x] g;
                   (x, g) = apply_layer (Conv1D 512 3 None (Some ''same'') None (Some ''relu'') None)
                              (Some ''block4_conv3'') [x] g;
                   (x, g) = apply_layer (Conv1D 512 3 None (Some ''same'') None (Some ''relu'') None)
                              (Some ''block4_conv4'') [x] g;
                   (x, g) = apply_layer (MaxPooling1D 2 2) (Some ''block4_pool'') [x] g;
                   (x, g) = apply_layer (Conv1D 512 3 None (Some ''same'') None (Some ''relu'') None)
                              (Some ''block5_conv1'') [x] g;
                   (x, g) = apply_layer (Conv1D 512 3 None (Some ''same'') None (Some ''relu'') None)
                              (Some ''block5_conv2'') [x] g;
                   (x, g) = apply_layer (Conv1D 512 3 None (Some ''same'') None (Some ''relu'') None)
                              (Some ''block5_conv3'') [x] g;
                   (x, g) = apply_layer (Conv1D 512 3 None (Some ''same'') None (Some ''relu'') None)
                              (Some ''block5_conv4'') [x] g;
                   (x, g) = apply_layer (MaxPooling1D 2 2) (Some ''block5_pool'') [x] g;
                   (x, g) =
                     (if include_top a then
                        (let (x, g) = apply_layer Flatten (Some ''flatten'') [x] g;
                             (x, g) = apply_layer (Dense 4096 ''relu'') (Some ''fc1'') [x] g;
                             (x, g) = apply_layer (Dense 4096 ''relu'') (Some ''fc2'') [x] g
                         in apply_layer (Dense (classes a) ''softmax'') (Some ''predictions'') [x] g)
                      else if pooling a = Some ''avg'' then
                        apply_layer GlobalAveragePooling1D None [x] g
                      else if pooling a = Some ''max'' then
                        apply_layer GlobalMaxPooling1D None [x] g
                      else (x, g));
                   inputs = (case input_tensor a of
                               Some t \<Rightarrow> get_source_inputs K g t
                             | None \<Rightarrow> [img_input]);
                   model = \<lparr>m_inputs = inputs, m_output = x, m_name = ''vgg19'', m_weights = None\<rparr>
               in case weights a of
                    None \<Rightarrow> (Inr model, g)
                  | Some w \<Rightarrow>
                      (case load_weights K g w of
                         Some e \<Rightarrow> (Inl (Raised e), g)
                       | None \<Rightarrow> (Inr (model\<lparr>m_weights := Some w\<rparr>), g)))))"

subsection \<open>The parts of a build\<close>

text \<open>
  The consecutive parts of the bodies of \<open>ResNet\<close> and \<open>VGG19\<close>, each as a function
  of its own: the input (lines 311 to 317 of \<^verbatim>\<open>resnet_1d_common.py\<close>, 84 to 90 of
  \<^verbatim>\<open>vgg19_1d.py\<close>), the stem of \<open>ResNet\<close> (321 to 331), its trailing normalisation
  (335 to 338), its head (340 to 347), the convolutions of \<open>VGG19\<close> (92 to 168), its head
  (170 to 180), and the creation of the model with the loading of the weights (351 to 363,
  184 to 195). They serve the statements and proofs below; \<open>ResNet\<close> and \<open>VGG19\<close>
  above are the builders as the source has them, and after the checks of the arguments
  each is the composition of its parts (\<open>ResNet_parts\<close>, \<open>VGG19_parts\<close> below).
\<close>

definition build_input ::
  "build_args \<Rightarrow> shape \<Rightarrow> graph \<Rightarrow> tensor \<times> graph" where
  "build_input a shp g =
     (case input_tensor a of
        None \<Rightarrow> apply_layer (Input None shp) None [] g
      | Some t \<Rightarrow>
          if \<not> is_keras_tensor t then apply_layer (Input (Some t) shp) None [] g
          else (case t of KerasTensor i \<Rightarrow> (i, g)
                | BackendTensor b \<Rightarrow> apply_layer (Input (Some t) shp) None [] g))"

definition ResNet_stem ::
  "keras \<Rightarrow> bool \<Rightarrow> bool \<Rightarrow> string \<Rightarrow>
   tensor \<Rightarrow> graph \<Rightarrow> tensor \<times> graph" where
  "ResNet_stem K preact use_bias ki img_input g =
    (let bn_axis = (if image_data_format K = ''channels_last'' then 2 else 1);
         (x, g) = apply_layer (ZeroPadding1D 3) (Some ''conv1_pad'') [img_input] g;
         (x, g) = apply_layer (Conv1D 64 7 (Some 2) None (Some use_bias) None (Some ki))
                    (Some ''conv1_conv'') [x] g;
         (x, g) =
           (if \<not> preact then
              (let (x, g) = apply_layer (BatchNormalization bn_axis) (Some ''conv1_bn'') [x] g
               in apply_layer (Activation ''relu'') (Some ''conv1_relu'') [x] g)
            else (x, g));
         (x, g) = apply_layer (ZeroPadding1D 1) (Some ''pool1_pad'') [x] g
     in apply_layer (MaxPooling1D 3 2) (Some ''pool1_pool'') [x] g)"

definition ResNet_tail ::
  "keras \<Rightarrow> bool \<Rightarrow> tensor \<Rightarrow> graph \<Rightarrow>
   tensor \<times> graph" where
  "ResNet_tail K preact x g =
    (let bn_axis = (if image_data_format K = ''channels_last'' then 2 else 1)
     in if preact then
          (let (x, g) = apply_layer (BatchNormalization bn_axis) (Some ''post_bn'') [x] g
           in apply_layer (Activation ''relu'') (Some ''post_relu'') [x] g)
        else (x, g))"

definition ResNet_head ::
  "build_args \<Rightarrow> tensor \<Rightarrow> graph \<Rightarrow> tensor \<times> graph" where
  "ResNet_head a x g =
    (if include_top a then
       (let (x, g) = apply_layer GlobalAveragePooling1D (Some ''avg_pool'') [x] g
        in apply_layer (Dense (classes a) ''softmax'') (Some ''probs'') [x] g)
     else if pooling a = Some ''avg'' then
       apply_layer GlobalAveragePooling1D (Some ''avg_pool'') [x] g
     else if pooling a = Some ''max'' then
       apply_layer GlobalMaxPooling1D (Some ''max_pool'') [x] g
     else (x, g))"

definition VGG19_convs :: "tensor \<Rightarrow> graph \<Rightarrow> tensor \<times> graph" where
  "VGG19_convs img_input g =
    (let (x, g) = apply_layer (Conv1D 64 3 None (Some ''same'') None (Some ''relu'') None)
                    (Some ''block1_conv1'') [img_input] g;
         (x, g) = apply_layer (Conv1D 64 3 None (Some ''same'') None (Some ''relu'') None)
                    (Some ''block1_conv2'') [x] g;
         (x, g) = apply_layer (MaxPooling1D 2 2) (Some ''block1_pool'') [x] g;
         (x, g) = apply_layer (Conv1D 128 3 None (Some ''same'') None (Some ''relu'') None)
                    (Some ''block2_conv1'') [x] g;
         (x, g) = apply_layer (Conv1D 128 3 None (Some ''same'') None (Some ''relu'') None)
                    (Some ''block2_conv2'') [x] g;
         (x, g) = apply_layer (MaxPooling1D 2 2) (Some ''block2_pool'') [x] g;
         (x, g) = apply_layer (Conv1D 256 3 None (Some ''same'') None (Some ''relu'') None)
                    (Some ''block3_conv1'') [x] g;
         (x, g) = apply_layer (Conv1D 256 3 None (Some ''same'') None (Some ''relu'') None)
                    (Some ''block3_conv2'') [x] g;
         (x, g) = apply_layer (Conv1D 256 3 None (Some ''same'') None (Some ''relu'') None)
                    (Some ''block3_conv3'') [x] g;
         (x, g) = apply_layer (Conv1D 256 3 None (Some ''same'') None (Some ''relu'') None)
                    (Some ''block3_conv4'') [x] g;
         (x, g) = apply_layer (MaxPooling1D 2 2) (Some ''block3_pool'') [x] g;
         (x, g) = apply_layer (Conv1D 512 3 None (Some ''same'') None (Some ''relu'') None)
                    (Some ''block4_conv1'') [x] g;
         (x, g) = apply_layer (Conv1D 512 3 None (Some ''same'') None (Some ''relu'') None)
                    (Some ''block4_conv2'') [x] g;
         (x, g) = apply_layer (Conv1D 512 3 None (Some ''same'') None (Some ''relu'') None)
                    (Some ''block4_conv3'') [x] g;
         (x, g) = apply_layer (Conv1D 512 3 None (Some ''same'') None (Some ''relu'') None)
                    (Some ''block4_conv4'') [x] g;
         (x, g) = apply_layer (MaxPooling1D 2 2) (Some ''block4_pool'') [x] g;
         (x, g) = apply_layer (Conv1D 512 3 None (Some ''same'') None (Some ''relu'') None)
                    (Some ''block5_conv1'') [x] g;
         (x, g) = apply_layer (Conv1D 512 3 None (Some ''same'') None (Some ''relu'') None)
                    (Some ''block5_conv2'') [x] g;
         (x, g) = apply_layer (Conv1D 512 3 None (Some ''same'') None (Some ''relu'') None)
                    (Some ''block5_conv3'') [x] g;
         (x, g) = apply_layer (Conv1D 512 3 None (Some ''same'') None (Some ''relu'') None)
                    (Some ''block5_conv4'') [x] g
     in apply_layer (MaxPooling1D 2 2) (Some ''block5_pool'') [x] g)"

definition VGG19_head ::
  "build_args \<Rightarrow> tensor \<Rightarrow> graph \<Rightarrow> tensor \<times> graph" where
  "VGG19_head a x g =
    (if include_top a then
       (let (x, g) = apply_layer Flatten (Some ''flatten'') [x] g;
            (x, g) = apply_layer (Dense 4096 ''relu'') (Some ''fc1'') [x] g;
            (x, g) = apply_layer (Dense 4096 ''relu'') (Some ''fc2'') [x] g
        in apply_layer (Dense (classes a) ''softmax'') (Some ''predictions'') [x] g)
     else if pooling a = Some ''avg'' then
       apply_layer GlobalAveragePooling1D None [x] g
     else if pooling a = Some ''max'' then
       apply_layer GlobalMaxPooling1D None [x] g
     else (x, g))"

definition create_model ::
  "keras \<Rightarrow> build_args \<Rightarrow> string \<Rightarrow> tensor \<Rightarrow> tensor \<Rightarrow> graph \<Rightarrow> (error + model) \<times> graph" where
  "create_model K a model_name img_input x g =
    (let inputs = (case input_tensor a of
                     Some t \<Rightarrow> get_source_inputs K g t
                   | None \<Rightarrow> [img_input]);
         model = \<lparr>m_inputs = inputs, m_output = x, m_name = model_name, m_weights = None\<rparr>
     in case weights a of
          None \<Rightarrow> (Inr model, g)
        | Some w \<Rightarrow>
            (case load_weights K g w of
               Some e \<Rightarrow> (Inl (Raised e), g)
             | None \<Rightarrow> (Inr (model\<lparr>m_weights := Some w\<rparr>), g)))"

subsection \<open>Stage plans\<close>

text \<open>The stack calls of a preset as data: the filters, the number of blocks, the
  \<^verbatim>\<open>stride1\<close> and the name of each stack, in call order, and the run of a stack function
  over such a plan. Each preset's \<^verbatim>\<open>stack_fn\<close> is the run of its plan (\<open>preset_runs\<close>
  below).\<close>

record stage =
  width :: int
  depth :: int
  first_stride :: int
  label :: string

definition run_stages ::
  "(keras \<Rightarrow> tensor \<Rightarrow> int \<Rightarrow> int \<Rightarrow> int \<Rightarrow> string \<Rightarrow> string \<Rightarrow> graph \<Rightarrow> tensor \<times> graph) \<Rightarrow>
   string \<Rightarrow> keras \<Rightarrow> stage list \<Rightarrow> tensor \<times> graph \<Rightarrow> tensor \<times> graph" where
  "run_stages stk ki K ps s =
     fold (\<lambda>p (x, g). stk K x (width p) (depth p) (first_stride p) ki (label p) g) ps s"

definition v1_plan ::
  "int \<Rightarrow> int \<Rightarrow> int \<Rightarrow> int \<Rightarrow> stage list" where
  "v1_plan d2 d3 d4 d5 =
     [\<lparr>width = 64, depth = d2, first_stride = 1, label = ''conv2''\<rparr>,
      \<lparr>width = 128, depth = d3, first_stride = 2, label = ''conv3''\<rparr>,
      \<lparr>width = 256, depth = d4, first_stride = 2, label = ''conv4''\<rparr>,
      \<lparr>width = 512, depth = d5, first_stride = 2, label = ''conv5''\<rparr>]"

definition v2_plan ::
  "int \<Rightarrow> int \<Rightarrow> int \<Rightarrow> int \<Rightarrow> stage list" where
  "v2_plan d2 d3 d4 d5 =
     [\<lparr>width = 64, depth = d2, first_stride = 2, label = ''conv2''\<rparr>,
      \<lparr>width = 128, depth = d3, first_stride = 2, label = ''conv3''\<rparr>,
      \<lparr>width = 256, depth = d4, first_stride = 2, label = ''conv4''\<rparr>,
      \<lparr>width = 512, depth = d5, first_stride = 1, label = ''conv5''\<rparr>]"

subsection \<open>A sample environment\<close>

text \<open>The inputs of the examples below: a backend with the \<^verbatim>\<open>channels_last\<close> format whose
  \<^verbatim>\<open>load_weights\<close> succeeds, a file system with the one file \<^verbatim>\<open>resnet18.h5\<close>, an input
  shape of 64 steps of 3 channels, the default arguments of an entry point, and a graph
  with one input.\<close>

definition test_keras :: keras where
  "test_keras = \<lparr>image_data_format = ''channels_last'', get_source_inputs = (\<lambda>g t. []),
                  load_weights = (\<lambda>g w. None)\<rparr>"

definition test_env :: env where
  "test_env = \<lparr>submodules = Inr test_keras, path_exists = (\<lambda>p. p = ''resnet18.h5''),
                obtain_input_shape_1d = (\<lambda>s m f. Inr [Some 64, Some 3])\<rparr>"

definition test_args :: build_args where
  "test_args = \<lparr>include_top = True, weights = None, input_tensor = None, input_shape = None,
                 pooling = None, classes = 1000\<rparr>"

definition test_graph :: graph where
  "test_graph = [\<lparr>layer = Input None [None, Some 3], lname = None, inputs = []\<rparr>]"

text \<open>A \<^verbatim>\<open>stack_fn\<close> of one basic stack of one block, and the arguments of a block.\<close>

definition test_stack_fn ::
  "keras \<Rightarrow> tensor \<Rightarrow> graph \<Rightarrow> tensor \<times> graph" where
  "test_stack_fn K x g = stack0 K x 64 1 1 ''he_uniform'' ''conv2'' g"

definition test_block :: block_args where
  "test_block = \<lparr>filters = 64, kernel_size = 3, stride = 1, conv_shortcut = False,
                  kernel_initializer = ''he_uniform'', name = ''conv2_block1''\<rparr>"

section \<open>Facts about blocks and stacks\<close>













lemma preset_runs:
  "ResNet18_stack_fn ki K x g = run_stages stack0 ki K (v1_plan 2 2 2 2) (x, g)"
  "ResNet34_stack_fn ki K x g = run_stages stack0 ki K (v1_plan 3 4 6 3) (x, g)"
  "ResNet50_stack_fn ki K x g = run_stages stack1 ki K (v1_plan 3 4 6 3) (x, g)"
  "ResNet101_stack_fn ki K x g = run_stages stack1 ki K (v1_plan 3 4 23 3) (x, g)"
  "ResNet152_stack_fn ki K x g = run_stages stack1 ki K (v1_plan 3 8 36 3) (x, g)"
  "ResNet50V2_stack_fn ki K x g = run_stages stack2 ki K (v2_plan 3 4 6 3) (x, g)"
  "ResNet101V2_stack_fn ki K x g = run_stages stack2 ki K (v2_plan 3 4 23 3) (x, g)"
  "ResNet152V2_stack_fn ki K x g = run_stages stack2 ki K (v2_plan 3 8 36 3) (x, g)"
  by (simp_all add: ResNet18_stack_fn_def ResNet34_stack_fn_def ResNet50_stack_fn_def
        ResNet101_stack_fn_def ResNet152_stack_fn_def ResNet50V2_stack_fn_def
        ResNet101V2_stack_fn_def ResNet152V2_stack_fn_def run_stages_def v1_plan_def v2_plan_def
        split_def Let_def)



subsection \<open>The builders as the composition of their parts\<close>

lemma case_prod_assoc:
  "(case (case p of (a, b) \<Rightarrow> f a b) of (x, y) \<Rightarrow> h x y) =
   (case p of (a, b) \<Rightarrow> (case f a b of (x, y) \<Rightarrow> h x y))"
  by (cases p) simp

lemma ResNet_parts:
  assumes sub: "submodules E = Inr K"
    and w: "case weights a of None \<Rightarrow> True | Some w \<Rightarrow> path_exists E w"
    and shp: "obtain_input_shape_1d E (input_shape a) 32 (image_data_format K) = Inr shp"
  shows "ResNet E sf preact ub mn a ki g =
    (let (img_input, g) = build_input a shp g;
         (x, g) = ResNet_stem K preact ub ki img_input g;
         (x, g) = sf K x g;
         (x, g) = ResNet_tail K preact x g;
         (x, g) = ResNet_head a x g
     in create_model K a mn img_input x g)"
  unfolding ResNet_def build_input_def ResNet_stem_def ResNet_tail_def ResNet_head_def create_model_def
  by (simp only: sub w shp sum.case if_False not_True_eq_False Let_def case_prod_assoc)

lemma VGG19_parts:
  assumes sub: "submodules E = Inr K"
    and w: "case weights a of None \<Rightarrow> True | Some w \<Rightarrow> path_exists E w"
    and shp: "obtain_input_shape_1d E (input_shape a) 32 (image_data_format K) = Inr shp"
  shows "VGG19 E a g =
    (let (img_input, g) = build_input a shp g;
         (x, g) = VGG19_convs img_input g;
         (x, g) = VGG19_head a x g
     in create_model K a ''vgg19'' img_input x g)"
  unfolding VGG19_def build_input_def VGG19_convs_def VGG19_head_def create_model_def
  by (simp only: sub w shp sum.case if_False not_True_eq_False Let_def case_prod_assoc)

lemma ResNet_raises:
  "submodules E = Inl e \<Longrightarrow> ResNet E sf preact ub mn a ki g = (Inl (Raised e), g)"
  "submodules E = Inr K \<Longrightarrow> (case weights a of None \<Rightarrow> True | Some w \<Rightarrow> path_exists E w) \<Longrightarrow>
   obtain_input_shape_1d E (input_shape a) 32 (image_data_format K) = Inl e \<Longrightarrow>
   ResNet E sf preact ub mn a ki g = (Inl (Raised e), g)"
  unfolding ResNet_def by (simp_all only: sum.case if_False not_True_eq_False)

lemma VGG19_raises:
  "submodules E = Inl e \<Longrightarrow> VGG19 E a g = (Inl (Raised e), g)"
  "submodules E = Inr K \<Longrightarrow> (case weights a of None \<Rightarrow> True | Some w \<Rightarrow> path_exists E w) \<Longrightarrow>
   obtain_input_shape_1d E (input_shape a) 32 (image_data_format K) = Inl e \<Longrightarrow>
   VGG19 E a g = (Inl (Raised e), g)"
  unfolding VGG19_def by (simp_all only: sum.case if_False not_True_eq_False)

lemma create_model_graph: "snd (create_model K a mn img x g) = g"
  by (simp add: create_model_def Let_def split: option.splits)

lemma create_model_not_weights_error:
  "fst (create_model K a mn img x g) \<noteq> Inl (WeightsValueError m)"
  by (simp add: create_model_def Let_def split: option.splits)

lemma create_model_no_weights:
  "weights a = None \<Longrightarrow> create_model K a mn img x g =
     (Inr \<lparr>m_inputs = (case input_tensor a of Some t \<Rightarrow> get_source_inputs K g t | None \<Rightarrow> [img]),
           m_output = x, m_name = mn, m_weights = None\<rparr>, g)"
  by (simp add: create_model_def Let_def)

lemma ResNet_head_nodes:
  "ResNet_head a x g =
     (if include_top a then
        (length g + 1, g @
          [\<lparr>layer = GlobalAveragePooling1D, lname = Some ''avg_pool'', inputs = [x]\<rparr>,
           \<lparr>layer = Dense (classes a) ''softmax'', lname = Some ''probs'', inputs = [length g]\<rparr>])
      else if pooling a = Some ''avg'' then
        (length g, g @ [\<lparr>layer = GlobalAveragePooling1D, lname = Some ''avg_pool'', inputs = [x]\<rparr>])
      else if pooling a = Some ''max'' then
        (length g, g @ [\<lparr>layer = GlobalMaxPooling1D, lname = Some ''max_pool'', inputs = [x]\<rparr>])
      else (x, g))"
  by (simp add: ResNet_head_def apply_layer_def)

lemma VGG19_head_nodes:
  "VGG19_head a x g =
     (if include_top a then
        (length g + 3, g @
          [\<lparr>layer = Flatten, lname = Some ''flatten'', inputs = [x]\<rparr>,
           \<lparr>layer = Dense 4096 ''relu'', lname = Some ''fc1'', inputs = [length g]\<rparr>,
           \<lparr>layer = Dense 4096 ''relu'', lname = Some ''fc2'', inputs = [length g + 1]\<rparr>,
           \<lparr>layer = Dense (classes a) ''softmax'', lname = Some ''predictions'',
            inputs = [length g + 2]\<rparr>])
      else if pooling a = Some ''avg'' then
        (length g, g @ [\<lparr>layer = GlobalAveragePooling1D, lname = None, inputs = [x]\<rparr>])
      else if pooling a = Some ''max'' then
        (length g, g @ [\<lparr>layer = GlobalMaxPooling1D, lname = None, inputs = [x]\<rparr>])
      else (x, g))"
  by (simp add: VGG19_head_def apply_layer_def)

lemma ResNet_stem_nodes:
  "ResNet_stem K preact ub ki img g =
     (length g + (if preact then 3 else 5),
      g @ [\<lparr>layer = ZeroPadding1D 3, lname = Some ''conv1_pad'', inputs = [img]\<rparr>,
           \<lparr>layer = Conv1D 64 7 (Some 2) None (Some ub) None (Some ki),
            lname = Some ''conv1_conv'', inputs = [length g]\<rparr>] @
          (if preact then []
           else [\<lparr>layer = BatchNormalization (if image_data_format K = ''channels_last'' then 2 else 1),
                  lname = Some ''conv1_bn'', inputs = [length g + 1]\<rparr>,
                 \<lparr>layer = Activation ''relu'', lname = Some ''conv1_relu'',
                  inputs = [length g + 2]\<rparr>]) @
          [\<lparr>layer = ZeroPadding1D 1, lname = Some ''pool1_pad'',
            inputs = [length g + (if preact then 1 else 3)]\<rparr>,
           \<lparr>layer = MaxPooling1D 3 2, lname = Some ''pool1_pool'',
            inputs = [length g + (if preact then 2 else 4)]\<rparr>])"
  by (simp add: ResNet_stem_def apply_layer_def Let_def)

lemma ResNet_tail_nodes:
  "ResNet_tail K preact x g =
     (if preact then
        (length g + 1,
         g @ [\<lparr>layer = BatchNormalization (if image_data_format K = ''channels_last'' then 2 else 1),
               lname = Some ''post_bn'', inputs = [x]\<rparr>,
              \<lparr>layer = Activation ''relu'', lname = Some ''post_relu'', inputs = [length g]\<rparr>])
      else (x, g))"
  by (simp add: ResNet_tail_def apply_layer_def Let_def)

lemma fst_Let_neq: "(\<And>v. fst (f v) \<noteq> c) \<Longrightarrow> fst (Let e f) \<noteq> c"
  by simp

lemma fst_case_prod_neq:
  "(\<And>a b. fst (f a b) \<noteq> c) \<Longrightarrow> fst (case p of (a, b) \<Rightarrow> f a b) \<noteq> c"
  by (cases p) simp

lemma ResNet_no_weights_error:
  assumes w: "case weights a of None \<Rightarrow> True | Some w \<Rightarrow> path_exists E w"
  shows "fst (ResNet E sf preact ub mn a ki g) \<noteq> Inl (WeightsValueError m)"
proof (cases "submodules E")
  case (Inl e)
  then show ?thesis by (simp add: ResNet_raises(1))
next
  case (Inr K)
  show ?thesis
  proof (cases "obtain_input_shape_1d E (input_shape a) 32 (image_data_format K)")
    case (Inl e)
    then show ?thesis by (simp add: ResNet_raises(2) [OF Inr w])
  next
    case shp: (Inr shp)
    show ?thesis
      unfolding ResNet_parts [OF Inr w shp]
      by (intro fst_Let_neq fst_case_prod_neq create_model_not_weights_error)
  qed
qed

lemma VGG19_no_weights_error:
  assumes w: "case weights a of None \<Rightarrow> True | Some w \<Rightarrow> path_exists E w"
  shows "fst (VGG19 E a g) \<noteq> Inl (WeightsValueError m)"
proof (cases "submodules E")
  case (Inl e)
  then show ?thesis by (simp add: VGG19_raises(1))
next
  case (Inr K)
  show ?thesis
  proof (cases "obtain_input_shape_1d E (input_shape a) 32 (image_data_format K)")
    case (Inl e)
    then show ?thesis by (simp add: VGG19_raises(2) [OF Inr w])
  next
    case shp: (Inr shp)
    show ?thesis
      unfolding VGG19_parts [OF Inr w shp]
      by (intro fst_Let_neq fst_case_prod_neq create_model_not_weights_error)
  qed
qed

lemma weights_rejected:
  assumes "weights a = Some w" "\<not> path_exists E w"
  shows "ResNet E sf preact ub mn a ki g =
           (case submodules E of
              Inl e \<Rightarrow> (Inl (Raised e), g)
            | Inr K \<Rightarrow> (Inl (WeightsValueError
                (''The `weights` argument should be either `None` (random initialization), '' @
                 ''or the path to the weights file to be loaded.'')), g))"
    and "VGG19 E a g =
           (case submodules E of
              Inl e \<Rightarrow> (Inl (Raised e), g)
            | Inr K \<Rightarrow> (Inl (WeightsValueError
                (''The `weights` argument should be either `None` (random initialization),'' @
                 ''or the path to the weights file to be loaded.'')), g))"
  using assms unfolding ResNet_def VGG19_def
  by (cases "submodules E"; simp only: sum.case option.case if_True simp_thms append.simps)+

lemma parts_pooling:
  "build_input (a\<lparr>pooling := p\<rparr>) shp g = build_input a shp g"
  "create_model K (a\<lparr>pooling := p\<rparr>) mn img x g = create_model K a mn img x g"
  "include_top a \<Longrightarrow> ResNet_head (a\<lparr>pooling := p\<rparr>) x g = ResNet_head a x g"
  "include_top a \<Longrightarrow> VGG19_head (a\<lparr>pooling := p\<rparr>) x g = VGG19_head a x g"
  by (simp_all add: build_input_def create_model_def ResNet_head_def VGG19_head_def)

lemma ResNet_pooling_ignored:
  assumes top: "include_top a"
  shows "ResNet E sf preact ub mn (a\<lparr>pooling := p\<rparr>) ki g = ResNet E sf preact ub mn a ki g"
proof (cases "submodules E")
  case (Inl e)
  then show ?thesis by (simp add: ResNet_raises(1))
next
  case (Inr K)
  show ?thesis
  proof (cases "case weights a of None \<Rightarrow> True | Some w \<Rightarrow> path_exists E w")
    case False
    then obtain w where "weights a = Some w" "\<not> path_exists E w"
      by (auto split: option.splits)
    then show ?thesis by (simp add: weights_rejected(1) [of _ w])
  next
    case True
    then have w': "case weights (a\<lparr>pooling := p\<rparr>) of None \<Rightarrow> True | Some w \<Rightarrow> path_exists E w"
      by simp
    show ?thesis
    proof (cases "obtain_input_shape_1d E (input_shape a) 32 (image_data_format K)")
      case (Inl e)
      then have "obtain_input_shape_1d E (input_shape (a\<lparr>pooling := p\<rparr>)) 32 (image_data_format K) = Inl e"
        by simp
      then show ?thesis
        by (simp only: ResNet_raises(2) [OF Inr True Inl] ResNet_raises(2) [OF Inr w'])
    next
      case shp: (Inr shp)
      then have "obtain_input_shape_1d E (input_shape (a\<lparr>pooling := p\<rparr>)) 32 (image_data_format K) = Inr shp"
        by simp
      then show ?thesis
        by (simp add: ResNet_parts [OF Inr True shp] ResNet_parts [OF Inr w'] parts_pooling top)
    qed
  qed
qed

lemma VGG19_pooling_ignored:
  assumes top: "include_top a"
  shows "VGG19 E (a\<lparr>pooling := p\<rparr>) g = VGG19 E a g"
proof (cases "submodules E")
  case (Inl e)
  then show ?thesis by (simp add: VGG19_raises(1))
next
  case (Inr K)
  show ?thesis
  proof (cases "case weights a of None \<Rightarrow> True | Some w \<Rightarrow> path_exists E w")
    case False
    then obtain w where "weights a = Some w" "\<not> path_exists E w"
      by (auto split: option.splits)
    then show ?thesis by (simp add: weights_rejected(2) [of _ w])
  next
    case True
    then have w': "case weights (a\<lparr>pooling := p\<rparr>) of None \<Rightarrow> True | Some w \<Rightarrow> path_exists E w"
      by simp
    show ?thesis
    proof (cases "obtain_input_shape_1d E (input_shape a) 32 (image_data_format K)")
      case (Inl e)
      then have "obtain_input_shape_1d E (input_shape (a\<lparr>pooling := p\<rparr>)) 32 (image_data_format K) = Inl e"
        by simp
      then show ?thesis
        by (simp only: VGG19_raises(2) [OF Inr True Inl] VGG19_raises(2) [OF Inr w'])
    next
      case shp: (Inr shp)
      then have "obtain_input_shape_1d E (input_shape (a\<lparr>pooling := p\<rparr>)) 32 (image_data_format K) = Inr shp"
        by simp
      then show ?thesis
        by (simp add: VGG19_parts [OF Inr True shp] VGG19_parts [OF Inr w'] parts_pooling top)
    qed
  qed
qed

lemma ResNet_head_on_headless:
  assumes r: "ResNet E sf preact ub mn (a\<lparr>include_top := False, pooling := None, weights := None\<rparr>) ki g = (Inr m0, H)"
    and w: "case weights a of None \<Rightarrow> True | Some w \<Rightarrow> path_exists E w"
  shows "snd (ResNet E sf preact ub mn a ki g) = snd (ResNet_head a (m_output m0) H)"
proof -
  let ?a0 = "a\<lparr>include_top := False, pooling := None, weights := None\<rparr>"
  have w0: "case weights ?a0 of None \<Rightarrow> True | Some w \<Rightarrow> path_exists E w" by simp
  obtain K where sub: "submodules E = Inr K"
    using r by (cases "submodules E") (simp_all add: ResNet_raises(1))
  obtain shp where shp0: "obtain_input_shape_1d E (input_shape ?a0) 32 (image_data_format K) = Inr shp"
    using r ResNet_raises(2) [OF sub w0, of _ sf preact ub mn ki g]
    by (cases "obtain_input_shape_1d E (input_shape ?a0) 32 (image_data_format K)") simp_all
  then have shp: "obtain_input_shape_1d E (input_shape a) 32 (image_data_format K) = Inr shp"
    by simp
  obtain img g1 where i: "build_input a shp g = (img, g1)"
    by (cases "build_input a shp g")
  obtain x2 g2 where st: "ResNet_stem K preact ub ki img g1 = (x2, g2)"
    by (cases "ResNet_stem K preact ub ki img g1")
  obtain x3 g3 where s: "sf K x2 g2 = (x3, g3)"
    by (cases "sf K x2 g2")
  obtain z g4 where t: "ResNet_tail K preact x3 g3 = (z, g4)"
    by (cases "ResNet_tail K preact x3 g3")
  have i0: "build_input ?a0 shp g = (img, g1)"
    using i by (simp add: build_input_def)
  have "ResNet E sf preact ub mn ?a0 ki g =
      (Inr \<lparr>m_inputs = (case input_tensor a of Some t \<Rightarrow> get_source_inputs K g4 t | None \<Rightarrow> [img]),
             m_output = z, m_name = mn, m_weights = None\<rparr>, g4)"
    by (simp add: ResNet_parts [OF sub w0 shp0] i0 st s t ResNet_head_nodes create_model_no_weights)
  with r have H: "H = g4" and m0: "m_output m0 = z" by auto
  show ?thesis
    by (simp add: ResNet_parts [OF sub w shp] i st s t create_model_graph split_def Let_def H m0)
qed

lemma VGG19_head_on_headless:
  assumes r: "VGG19 E (a\<lparr>include_top := False, pooling := None, weights := None\<rparr>) g = (Inr m0, H)"
    and w: "case weights a of None \<Rightarrow> True | Some w \<Rightarrow> path_exists E w"
  shows "snd (VGG19 E a g) = snd (VGG19_head a (m_output m0) H)"
proof -
  let ?a0 = "a\<lparr>include_top := False, pooling := None, weights := None\<rparr>"
  have w0: "case weights ?a0 of None \<Rightarrow> True | Some w \<Rightarrow> path_exists E w" by simp
  obtain K where sub: "submodules E = Inr K"
    using r by (cases "submodules E") (simp_all add: VGG19_raises(1))
  obtain shp where shp0: "obtain_input_shape_1d E (input_shape ?a0) 32 (image_data_format K) = Inr shp"
    using r VGG19_raises(2) [OF sub w0, of _ g]
    by (cases "obtain_input_shape_1d E (input_shape ?a0) 32 (image_data_format K)") simp_all
  then have shp: "obtain_input_shape_1d E (input_shape a) 32 (image_data_format K) = Inr shp"
    by simp
  obtain img g1 where i: "build_input a shp g = (img, g1)"
    by (cases "build_input a shp g")
  obtain z g4 where c: "VGG19_convs img g1 = (z, g4)"
    by (cases "VGG19_convs img g1")
  have i0: "build_input ?a0 shp g = (img, g1)"
    using i by (simp add: build_input_def)
  have "VGG19 E ?a0 g =
      (Inr \<lparr>m_inputs = (case input_tensor a of Some t \<Rightarrow> get_source_inputs K g4 t | None \<Rightarrow> [img]),
             m_output = z, m_name = ''vgg19'', m_weights = None\<rparr>, g4)"
    by (simp add: VGG19_parts [OF sub w0 shp0] i0 c VGG19_head_nodes create_model_no_weights)
  with r have H: "H = g4" and m0: "m_output m0 = z" by auto
  show ?thesis
    by (simp add: VGG19_parts [OF sub w shp] i c create_model_graph split_def Let_def H m0)
qed




section \<open>Where a stack applies its stride\<close>



section \<open>The pre-activation stack of one block\<close>


section \<open>Which block of a stack has the projection shortcut\<close>




section \<open>The residual blocks of the presets\<close>



section \<open>The stride of each stage of the presets\<close>

text \<open>
  C10. Every v1 preset (\<open>ResNet18\<close>, \<open>ResNet34\<close>, \<open>ResNet50\<close>, \<open>ResNet101\<close>,
  \<open>ResNet152\<close>) runs a plan whose first stage, \<^verbatim>\<open>conv2\<close>, has \<^verbatim>\<open>stride1=1\<close> and whose other
  three stages have the stride 2. Every v2 preset (\<open>ResNet50V2\<close>, \<open>ResNet101V2\<close>,
  \<open>ResNet152V2\<close>) runs a plan whose last stage, \<^verbatim>\<open>conv5\<close>, has \<^verbatim>\<open>stride1=1\<close> and whose
  first three stages have the default stride 2.
\<close>

theorem preset_stage_strides:
  "ResNet18_stack_fn ki K x g = run_stages stack0 ki K (v1_plan 2 2 2 2) (x, g) \<and>
   ResNet34_stack_fn ki K x g = run_stages stack0 ki K (v1_plan 3 4 6 3) (x, g) \<and>
   ResNet50_stack_fn ki K x g = run_stages stack1 ki K (v1_plan 3 4 6 3) (x, g) \<and>
   ResNet101_stack_fn ki K x g = run_stages stack1 ki K (v1_plan 3 4 23 3) (x, g) \<and>
   ResNet152_stack_fn ki K x g = run_stages stack1 ki K (v1_plan 3 8 36 3) (x, g) \<and>
   ResNet50V2_stack_fn ki K x g = run_stages stack2 ki K (v2_plan 3 4 6 3) (x, g) \<and>
   ResNet101V2_stack_fn ki K x g = run_stages stack2 ki K (v2_plan 3 4 23 3) (x, g) \<and>
   ResNet152V2_stack_fn ki K x g = run_stages stack2 ki K (v2_plan 3 8 36 3) (x, g) \<and>
   map (\<lambda>p. (label p, first_stride p)) (v1_plan d2 d3 d4 d5) =
     [(''conv2'', 1), (''conv3'', 2), (''conv4'', 2), (''conv5'', 2)] \<and>
   map (\<lambda>p. (label p, first_stride p)) (v2_plan d2 d3 d4 d5) =
     [(''conv2'', 2), (''conv3'', 2), (''conv4'', 2), (''conv5'', 1)]"
proof -
  have a: "map (\<lambda>p. (label p, first_stride p)) (v1_plan d2 d3 d4 d5) =
     [(''conv2'', 1), (''conv3'', 2), (''conv4'', 2), (''conv5'', 2)]"
    by (simp add: v1_plan_def)
  have b: "map (\<lambda>p. (label p, first_stride p)) (v2_plan d2 d3 d4 d5) =
     [(''conv2'', 2), (''conv3'', 2), (''conv4'', 2), (''conv5'', 1)]"
    by (simp add: v2_plan_def)
  show ?thesis
    using a b by (simp only: preset_runs simp_thms)
qed

section \<open>The pre-activation block\<close>



section \<open>The names of the layers of a block\<close>

text \<open>
  C7, as the code has it. The names of the layers a block creates, in creation order, are
  the block's \<^verbatim>\<open>name\<close>, an underscore and a fixed token. They depend on nothing but the
  variant, the \<^verbatim>\<open>name\<close>, the position and, for the layers of the shortcut, on
  \<^verbatim>\<open>conv_shortcut\<close>. The tokens are \<^verbatim>\<open>0_conv\<close>, \<^verbatim>\<open>0_bn\<close>, \<^verbatim>\<open>1_conv\<close>, \<^verbatim>\<open>1_bn\<close>,
  \<^verbatim>\<open>1_relu\<close>, \<^verbatim>\<open>2_conv\<close>, \<^verbatim>\<open>2_bn\<close>, \<^verbatim>\<open>2_relu\<close>, \<^verbatim>\<open>3_conv\<close>, \<^verbatim>\<open>3_bn\<close>, \<^verbatim>\<open>add\<close>,
  \<^verbatim>\<open>out\<close>, \<^verbatim>\<open>preact_bn\<close>, \<^verbatim>\<open>preact_relu\<close> and, in \<open>block2\<close>, \<^verbatim>\<open>2_pad\<close>. The
  max-pooling shortcut of \<open>block2\<close> has no name.
\<close>

theorem block_layer_names:
  "map lname (drop (length g) (snd (block0 K x a g))) =
     map (\<lambda>t. Some (name a @ ''_'' @ t))
       ((if conv_shortcut a then [''0_conv'', ''0_bn''] else []) @
        [''1_conv'', ''1_bn'', ''1_relu'', ''2_conv'', ''2_bn'', ''add'', ''out'']) \<and>
   map lname (drop (length g) (snd (block1 K x a g))) =
     map (\<lambda>t. Some (name a @ ''_'' @ t))
       ((if conv_shortcut a then [''0_conv'', ''0_bn''] else []) @
        [''1_conv'', ''1_bn'', ''1_relu'', ''2_conv'', ''2_bn'', ''2_relu'', ''3_conv'', ''3_bn'',
         ''add'', ''out'']) \<and>
   map lname (drop (length g) (snd (block2 K x a g))) =
     map (\<lambda>t. Some (name a @ ''_'' @ t)) [''preact_bn'', ''preact_relu''] @
     (if conv_shortcut a then [Some (name a @ ''_'' @ ''0_conv'')]
      else if 1 < stride a then [None] else []) @
     map (\<lambda>t. Some (name a @ ''_'' @ t))
       [''1_conv'', ''1_bn'', ''1_relu'', ''2_pad'', ''2_conv'', ''2_bn'', ''2_relu'', ''3_conv'',
        ''out'']"
proof -
  have n0: "map lname (drop (length g) (snd (block0 K x a g))) =
     map (\<lambda>t. Some (name a @ ''_'' @ t))
       ((if conv_shortcut a then [''0_conv'', ''0_bn''] else []) @
        [''1_conv'', ''1_bn'', ''1_relu'', ''2_conv'', ''2_bn'', ''add'', ''out''])"
    by (simp add: block0_def apply_layer_def Let_def split_def)
  have n1: "map lname (drop (length g) (snd (block1 K x a g))) =
     map (\<lambda>t. Some (name a @ ''_'' @ t))
       ((if conv_shortcut a then [''0_conv'', ''0_bn''] else []) @
        [''1_conv'', ''1_bn'', ''1_relu'', ''2_conv'', ''2_bn'', ''2_relu'', ''3_conv'', ''3_bn'',
         ''add'', ''out''])"
    by (simp add: block1_def apply_layer_def Let_def split_def)
  have n2: "map lname (drop (length g) (snd (block2 K x a g))) =
     map (\<lambda>t. Some (name a @ ''_'' @ t)) [''preact_bn'', ''preact_relu''] @
     (if conv_shortcut a then [Some (name a @ ''_'' @ ''0_conv'')]
      else if 1 < stride a then [None] else []) @
     map (\<lambda>t. Some (name a @ ''_'' @ t))
       [''1_conv'', ''1_bn'', ''1_relu'', ''2_pad'', ''2_conv'', ''2_bn'', ''2_relu'', ''3_conv'',
        ''out'']"
    by (simp add: block2_def apply_layer_def Let_def split_def)
  show ?thesis using n0 n1 n2 by (simp only: simp_thms)
qed

text \<open>
  The specification lists fourteen tokens. \<open>block2\<close> names its
  \<^verbatim>\<open>ZeroPadding1D\<close> layer \<^verbatim>\<open>name + '_2_pad'\<close>, and \<^verbatim>\<open>2_pad\<close> is none of the fourteen.
\<close>

theorem block2_pad_name_counterexample:
  "Some ''conv2_block1_2_pad'' \<in>
     set (map lname (snd (block2 test_keras 0 test_block test_graph))) \<and>
   ''conv2_block1_2_pad'' \<notin>
     (\<lambda>t. ''conv2_block1'' @ ''_'' @ t) `
       {''0_conv'', ''0_bn'', ''1_conv'', ''1_bn'', ''1_relu'', ''2_conv'', ''2_bn'', ''2_relu'',
        ''3_conv'', ''3_bn'', ''add'', ''out'', ''preact_bn'', ''preact_relu''}"
  by (simp add: block2_def apply_layer_def Let_def test_block_def test_graph_def)

section \<open>The check of the weights argument\<close>

text \<open>
  C4. When \<^verbatim>\<open>weights\<close> is a path that does not exist, \<open>ResNet\<close> and \<open>VGG19\<close> end
  with an error and leave the graph as it was: no input and no layer has been created.
  The error is the \<^verbatim>\<open>ValueError\<close> of the weights check whenever
  \<^verbatim>\<open>get_submodules_from_kwargs\<close>, the one call before the check, has returned. When
  \<^verbatim>\<open>weights\<close> is \<^verbatim>\<open>None\<close> or an existing path, neither builder ends with that error.
\<close>

theorem weights_checked_first:
  "(weights a = Some w \<and> \<not> path_exists E w \<longrightarrow>
      isl (fst (ResNet E sf preact ub mn a ki g)) \<and> snd (ResNet E sf preact ub mn a ki g) = g \<and>
      isl (fst (VGG19 E a g)) \<and> snd (VGG19 E a g) = g \<and>
      (submodules E = Inr K \<longrightarrow>
         ResNet E sf preact ub mn a ki g =
           (Inl (WeightsValueError
              (''The `weights` argument should be either `None` (random initialization), '' @
               ''or the path to the weights file to be loaded.'')), g) \<and>
         VGG19 E a g =
           (Inl (WeightsValueError
              (''The `weights` argument should be either `None` (random initialization),'' @
               ''or the path to the weights file to be loaded.'')), g))) \<and>
   (weights a = None \<or> (weights a = Some w \<and> path_exists E w) \<longrightarrow>
      (\<forall>m. fst (ResNet E sf preact ub mn a ki g) \<noteq> Inl (WeightsValueError m)) \<and>
      (\<forall>m. fst (VGG19 E a g) \<noteq> Inl (WeightsValueError m)))"
proof -
  have bad: "isl (fst (ResNet E sf preact ub mn a ki g)) \<and> snd (ResNet E sf preact ub mn a ki g) = g \<and>
      isl (fst (VGG19 E a g)) \<and> snd (VGG19 E a g) = g"
    if "weights a = Some w" "\<not> path_exists E w"
    by (simp add: weights_rejected [OF that] split: sum.splits)
  have bad2: "ResNet E sf preact ub mn a ki g =
           (Inl (WeightsValueError
              (''The `weights` argument should be either `None` (random initialization), '' @
               ''or the path to the weights file to be loaded.'')), g) \<and>
         VGG19 E a g =
           (Inl (WeightsValueError
              (''The `weights` argument should be either `None` (random initialization),'' @
               ''or the path to the weights file to be loaded.'')), g)"
    if "weights a = Some w" "\<not> path_exists E w" "submodules E = Inr K"
    by (simp add: weights_rejected [OF that(1,2)] that(3))
  have ok: "fst (ResNet E sf preact ub mn a ki g) \<noteq> Inl (WeightsValueError m) \<and>
            fst (VGG19 E a g) \<noteq> Inl (WeightsValueError m)"
    if "weights a = None \<or> (weights a = Some w \<and> path_exists E w)" for m
  proof -
    have "case weights a of None \<Rightarrow> True | Some w \<Rightarrow> path_exists E w"
      using that by auto
    then show ?thesis
      by (simp add: ResNet_no_weights_error VGG19_no_weights_error)
  qed
  show ?thesis using bad bad2 ok by blast
qed

theorem weights_checked_first_witness:
  "weights (test_args\<lparr>weights := Some ''missing.h5''\<rparr>) = Some ''missing.h5'' \<and>
   \<not> path_exists test_env ''missing.h5'' \<and>
   submodules test_env = Inr test_keras \<and>
   ResNet test_env (ResNet18_stack_fn ''he_uniform'') False True ''resnet18''
       (test_args\<lparr>weights := Some ''missing.h5''\<rparr>) ''he_uniform'' [] =
     (Inl (WeightsValueError
        (''The `weights` argument should be either `None` (random initialization), '' @
         ''or the path to the weights file to be loaded.'')), []) \<and>
   VGG19 test_env (test_args\<lparr>weights := Some ''missing.h5''\<rparr>) [] =
     (Inl (WeightsValueError
        (''The `weights` argument should be either `None` (random initialization),'' @
         ''or the path to the weights file to be loaded.'')), []) \<and>
   weights (test_args\<lparr>weights := Some ''resnet18.h5''\<rparr>) = Some ''resnet18.h5'' \<and>
   path_exists test_env ''resnet18.h5'' \<and>
   (\<forall>m. fst (ResNet test_env (ResNet18_stack_fn ''he_uniform'') False True ''resnet18''
               (test_args\<lparr>weights := Some ''resnet18.h5''\<rparr>) ''he_uniform'' []) \<noteq>
        Inl (WeightsValueError m)) \<and>
   (\<forall>m. fst (VGG19 test_env (test_args\<lparr>weights := Some ''resnet18.h5''\<rparr>) []) \<noteq>
        Inl (WeightsValueError m))"
  using weights_checked_first
      [of "test_args\<lparr>weights := Some ''missing.h5''\<rparr>" "''missing.h5''" test_env
        "ResNet18_stack_fn ''he_uniform''" False True "''resnet18''" "''he_uniform''" "[]"
        test_keras]
    weights_checked_first
      [of "test_args\<lparr>weights := Some ''resnet18.h5''\<rparr>" "''resnet18.h5''" test_env
        "ResNet18_stack_fn ''he_uniform''" False True "''resnet18''" "''he_uniform''" "[]"
        test_keras]
  by (simp add: test_env_def)

section \<open>The stem and the tail of a ResNet\<close>

text \<open>
  C8. A \<open>ResNet\<close> build that passes the checks of its arguments creates, on the input,
  \<^verbatim>\<open>ZeroPadding1D(3)\<close> and \<^verbatim>\<open>Conv1D(64, 7, strides=2)\<close>, then, only when \<open>preact\<close> is
  false, \<^verbatim>\<open>BatchNormalization\<close> and the \<^verbatim>\<open>relu\<close> activation, then \<^verbatim>\<open>ZeroPadding1D(1)\<close>
  and \<^verbatim>\<open>MaxPooling1D(3, strides=2)\<close>; it runs \<^verbatim>\<open>stack_fn\<close> on the output of the pooling;
  when \<open>preact\<close> is true it then creates \<^verbatim>\<open>BatchNormalization\<close> and the \<^verbatim>\<open>relu\<close>
  activation on the output of the stacks; and the head comes last.
\<close>

theorem ResNet_stem_and_tail:
  assumes sub: "submodules E = Inr K"
    and w: "case weights a of None \<Rightarrow> True | Some w \<Rightarrow> path_exists E w"
    and shp: "obtain_input_shape_1d E (input_shape a) 32 (image_data_format K) = Inr shp"
  shows "snd (ResNet E sf preact ub mn a ki g) =
    (let (img_input, g1) = build_input a shp g;
         n = length g1;
         bn_axis = (if image_data_format K = ''channels_last'' then 2 else 1);
         g2 = g1 @
           [\<lparr>layer = ZeroPadding1D 3, lname = Some ''conv1_pad'', inputs = [img_input]\<rparr>,
            \<lparr>layer = Conv1D 64 7 (Some 2) None (Some ub) None (Some ki),
             lname = Some ''conv1_conv'', inputs = [n]\<rparr>] @
           (if preact then []
            else [\<lparr>layer = BatchNormalization bn_axis, lname = Some ''conv1_bn'', inputs = [n + 1]\<rparr>,
                  \<lparr>layer = Activation ''relu'', lname = Some ''conv1_relu'', inputs = [n + 2]\<rparr>]) @
           [\<lparr>layer = ZeroPadding1D 1, lname = Some ''pool1_pad'',
             inputs = [n + (if preact then 1 else 3)]\<rparr>,
            \<lparr>layer = MaxPooling1D 3 2, lname = Some ''pool1_pool'',
             inputs = [n + (if preact then 2 else 4)]\<rparr>];
         (y, g3) = sf K (length g2 - 1) g2;
         (z, g4) =
           (if preact then
              (length g3 + 1,
               g3 @ [\<lparr>layer = BatchNormalization bn_axis, lname = Some ''post_bn'', inputs = [y]\<rparr>,
                     \<lparr>layer = Activation ''relu'', lname = Some ''post_relu'',
                      inputs = [length g3]\<rparr>])
            else (y, g3))
     in snd (ResNet_head a z g4))"
proof -
  obtain img g1 where i: "build_input a shp g = (img, g1)"
    by (cases "build_input a shp g")
  show ?thesis
    by (cases preact)
      (simp_all add: ResNet_parts [OF sub w shp] i ResNet_stem_nodes ResNet_tail_nodes
         create_model_graph Let_def split_def numeral_eq_Suc)
qed

theorem ResNet_stem_and_tail_witness:
  "map lname (snd (ResNet test_env test_stack_fn False True ''resnet'' test_args ''he_uniform'' [])) =
     [None, Some ''conv1_pad'', Some ''conv1_conv'', Some ''conv1_bn'', Some ''conv1_relu'',
      Some ''pool1_pad'', Some ''pool1_pool'',
      Some ''conv2_block1_0_conv'', Some ''conv2_block1_0_bn'', Some ''conv2_block1_1_conv'',
      Some ''conv2_block1_1_bn'', Some ''conv2_block1_1_relu'', Some ''conv2_block1_2_conv'',
      Some ''conv2_block1_2_bn'', Some ''conv2_block1_add'', Some ''conv2_block1_out'',
      Some ''avg_pool'', Some ''probs''] \<and>
   map lname (snd (ResNet test_env (\<lambda>K x g. (x, g)) True True ''resnet'' test_args ''he_uniform''
                     [])) =
     [None, Some ''conv1_pad'', Some ''conv1_conv'', Some ''pool1_pad'', Some ''pool1_pool'',
      Some ''post_bn'', Some ''post_relu'', Some ''avg_pool'', Some ''probs'']"
proof -
  have sub: "submodules test_env = Inr test_keras"
    by (simp add: test_env_def)
  have w: "case weights test_args of None \<Rightarrow> True | Some w \<Rightarrow> path_exists test_env w"
    by (simp add: test_args_def)
  have shp: "obtain_input_shape_1d test_env (input_shape test_args) 32
               (image_data_format test_keras) = Inr [Some 64, Some 3]"
    by (simp add: test_env_def)
  show ?thesis
    using ResNet_stem_and_tail
        [OF sub w shp, of test_stack_fn False True "''resnet''" "''he_uniform''" "[]"]
      ResNet_stem_and_tail
        [OF sub w shp, of "\<lambda>K x g. (x, g)" True True "''resnet''" "''he_uniform''" "[]"]
    by (simp add: build_input_def ResNet_head_def apply_layer_def test_stack_fn_def stack0_def
          block0_def Let_def test_args_def)
qed

section \<open>The head of a build\<close>

text \<open>
  C6, as the code has it. Take the build without a head (\<^verbatim>\<open>include_top=False\<close>,
  \<^verbatim>\<open>pooling=None\<close>), with its graph and its output. The graph of a build is that graph
  followed by the head, applied to that output. With \<^verbatim>\<open>include_top\<close> the head of
  \<open>ResNet\<close> is \<^verbatim>\<open>GlobalAveragePooling1D\<close> and \<^verbatim>\<open>Dense(classes, softmax)\<close>, and the head
  of \<open>VGG19\<close> is \<^verbatim>\<open>Flatten\<close>, \<^verbatim>\<open>Dense(4096, relu)\<close> twice and
  \<^verbatim>\<open>Dense(classes, softmax)\<close>; \<^verbatim>\<open>pooling\<close> then changes nothing of the result of either
  builder. Without \<^verbatim>\<open>include_top\<close> the head of both is \<^verbatim>\<open>GlobalAveragePooling1D\<close> for
  \<^verbatim>\<open>pooling='avg'\<close>, \<^verbatim>\<open>GlobalMaxPooling1D\<close> for \<^verbatim>\<open>pooling='max'\<close>, and nothing
  otherwise.
\<close>

theorem head_selection:
  assumes r: "ResNet E sf preact ub mn (a\<lparr>include_top := False, pooling := None, weights := None\<rparr>)
                ki g = (Inr m0, H)"
    and v: "VGG19 E (a\<lparr>include_top := False, pooling := None, weights := None\<rparr>) g = (Inr v0, Hv)"
    and w: "case weights a of None \<Rightarrow> True | Some w \<Rightarrow> path_exists E w"
  shows "snd (ResNet E sf preact ub mn a ki g) = H @
           (if include_top a then
              [\<lparr>layer = GlobalAveragePooling1D, lname = Some ''avg_pool'', inputs = [m_output m0]\<rparr>,
               \<lparr>layer = Dense (classes a) ''softmax'', lname = Some ''probs'', inputs = [length H]\<rparr>]
            else if pooling a = Some ''avg'' then
              [\<lparr>layer = GlobalAveragePooling1D, lname = Some ''avg_pool'', inputs = [m_output m0]\<rparr>]
            else if pooling a = Some ''max'' then
              [\<lparr>layer = GlobalMaxPooling1D, lname = Some ''max_pool'', inputs = [m_output m0]\<rparr>]
            else []) \<and>
         snd (VGG19 E a g) = Hv @
           (if include_top a then
              [\<lparr>layer = Flatten, lname = Some ''flatten'', inputs = [m_output v0]\<rparr>,
               \<lparr>layer = Dense 4096 ''relu'', lname = Some ''fc1'', inputs = [length Hv]\<rparr>,
               \<lparr>layer = Dense 4096 ''relu'', lname = Some ''fc2'', inputs = [length Hv + 1]\<rparr>,
               \<lparr>layer = Dense (classes a) ''softmax'', lname = Some ''predictions'',
                inputs = [length Hv + 2]\<rparr>]
            else if pooling a = Some ''avg'' then
              [\<lparr>layer = GlobalAveragePooling1D, lname = None, inputs = [m_output v0]\<rparr>]
            else if pooling a = Some ''max'' then
              [\<lparr>layer = GlobalMaxPooling1D, lname = None, inputs = [m_output v0]\<rparr>]
            else []) \<and>
         (include_top a \<longrightarrow>
            ResNet E sf preact ub mn (a\<lparr>pooling := p\<rparr>) ki g = ResNet E sf preact ub mn a ki g \<and>
            VGG19 E (a\<lparr>pooling := p\<rparr>) g = VGG19 E a g)"
proof -
  have a: "snd (ResNet E sf preact ub mn a ki g) = snd (ResNet_head a (m_output m0) H)"
    by (rule ResNet_head_on_headless [OF r w])
  have b: "snd (VGG19 E a g) = snd (VGG19_head a (m_output v0) Hv)"
    by (rule VGG19_head_on_headless [OF v w])
  show ?thesis
    unfolding a b
    by (simp add: ResNet_head_nodes VGG19_head_nodes ResNet_pooling_ignored VGG19_pooling_ignored)
qed

theorem head_selection_witness:
  "map layer (drop 16 (snd (ResNet test_env test_stack_fn False True ''resnet'' test_args
                              ''he_uniform'' []))) =
     [GlobalAveragePooling1D, Dense 1000 ''softmax''] \<and>
   map layer (drop 22 (snd (VGG19 test_env test_args []))) =
     [Flatten, Dense 4096 ''relu'', Dense 4096 ''relu'', Dense 1000 ''softmax''] \<and>
   ResNet test_env test_stack_fn False True ''resnet'' (test_args\<lparr>pooling := Some ''max''\<rparr>)
       ''he_uniform'' [] =
     ResNet test_env test_stack_fn False True ''resnet'' test_args ''he_uniform'' []"
proof -
  let ?a0 = "test_args\<lparr>include_top := False, pooling := None, weights := None\<rparr>"
  let ?R = "ResNet test_env test_stack_fn False True ''resnet'' ?a0 ''he_uniform'' []"
  let ?V = "VGG19 test_env ?a0 []"
  have r: "?R = (Inr (projr (fst ?R)), snd ?R)"
    by (simp add: ResNet_def apply_layer_def test_stack_fn_def stack0_def block0_def Let_def
          test_env_def test_args_def)
  have v: "?V = (Inr (projr (fst ?V)), snd ?V)"
    by (simp add: VGG19_def apply_layer_def Let_def test_env_def test_args_def)
  have w: "case weights test_args of None \<Rightarrow> True | Some w \<Rightarrow> path_exists test_env w"
    by (simp add: test_args_def)
  have lr: "length (snd ?R) = 16"
    by (simp add: ResNet_def apply_layer_def test_stack_fn_def stack0_def block0_def Let_def
          test_env_def test_args_def)
  have lv: "length (snd ?V) = 22"
    by (simp add: VGG19_def apply_layer_def Let_def test_env_def test_args_def)
  have top: "include_top test_args" "classes test_args = 1000"
    by (simp_all add: test_args_def)
  show ?thesis
    using head_selection [OF r v w, of "Some ''max''"] lr lv top
    by simp
qed

text \<open>
  The specification gives every build with \<^verbatim>\<open>include_top\<close> the head of \<open>ResNet\<close>. The \<open>VGG19\<close> build with \<^verbatim>\<open>include_top\<close> has no global average pooling:
  its last four layers are \<^verbatim>\<open>Flatten\<close>, two \<^verbatim>\<open>Dense(4096)\<close> and the \<^verbatim>\<open>Dense\<close> of the
  classes.
\<close>

theorem VGG19_head_counterexample:
  "map layer (drop 22 (snd (VGG19 test_env test_args []))) =
     [Flatten, Dense 4096 ''relu'', Dense 4096 ''relu'', Dense 1000 ''softmax''] \<and>
   map lname (drop 22 (snd (VGG19 test_env test_args []))) =
     [Some ''flatten'', Some ''fc1'', Some ''fc2'', Some ''predictions''] \<and>
   length (snd (VGG19 test_env test_args [])) = 26 \<and>
   GlobalAveragePooling1D \<notin> set (map layer (snd (VGG19 test_env test_args [])))"
  by (simp add: VGG19_def apply_layer_def Let_def test_env_def test_args_def)

end
